theory Spec2Isabelle
  imports Main
begin

section \<open>The metadata server of \<^verbatim>\<open>main.go\<close>\<close>

text \<open>
  The server keeps its configuration, the resolved credentials and the custom attribute
  map in package-level variables and reads the process environment on every request.
  The embedding threads them through as one record. Everything the program asks of a
  library that talks to the outside (the token sources of oauth2, impersonate and
  idtoken, the JWT parser, the file system, the JSON decoder) is a parameter: the
  theorems hold for every answer these can give.
\<close>

subsection \<open>Constants and data\<close>

definition googleProjectID :: string where
  "googleProjectID = ''GOOGLE_PROJECT_ID''"

definition googleNumericProjectID :: string where
  "googleNumericProjectID = ''GOOGLE_NUMERIC_PROJECT_ID''"

definition googleAccessToken :: string where
  "googleAccessToken = ''GOOGLE_ACCESS_TOKEN''"

definition googleIDToken :: string where
  "googleIDToken = ''GOOGLE_ID_TOKEN''"

definition googleAccountEmail :: string where
  "googleAccountEmail = ''GOOGLE_ACCOUNT_EMAIL''"

definition emailScope :: string where
  "emailScope = ''https://www.googleapis.com/auth/userinfo.email''"

record serverConfig =
  flPort :: string
  flnumericProjectID :: string
  fltokenScopes :: string
  flprojectID :: string
  flserviceAccountEmail :: string
  flserviAccountFile :: string
  flcustomAttributeFile :: string
  flImpersonate :: bool

record metadataToken =
  AccessToken :: string
  ExpiresIn :: int
  TokenType :: string

record serviceAccountDetails =
  Aliases :: string
  Email :: string
  Scopes :: string

text \<open>
  \<^verbatim>\<open>oauth2.Token\<close>, with the fields the program sets or reads. \<^verbatim>\<open>Expiry\<close> is a
  \<^verbatim>\<open>time.Time\<close>: an instant, here the number of nanoseconds since the zero
  \<^verbatim>\<open>Time\<close> (January 1, year 1, 00:00 UTC), so that a \<^verbatim>\<open>Token\<close> literal that leaves
  \<^verbatim>\<open>Expiry\<close> out has \<open>Token_Expiry = 0\<close>. The program compares it with
  \<^verbatim>\<open>time.Now().In(loc)\<close>, and \<^verbatim>\<open>In\<close> strips the monotonic clock reading, so the
  comparison is one of wall-clock instants.
\<close>

record Token =
  Token_AccessToken :: string
  Token_TokenType :: string
  Token_Expiry :: int

text \<open>
  A token source is the static one of \<^verbatim>\<open>oauth2.StaticTokenSource\<close>, which hands back
  its token without any call, or one of the two that ask Google: the impersonated
  credentials (target principal, scopes) and the key-file credentials (the file's bytes,
  scopes).
\<close>

datatype TokenSource =
    StaticTokenSource Token
  | ImpersonateCredentialsTokenSource string "string list"
  | JSONCredentialsTokenSource string "string list"

record Credentials =
  ProjectID :: string
  TokenSource :: TokenSource
  JSON :: string

text \<open>
  The identity-token sources \<^verbatim>\<open>getIDToken\<close> builds: \<^verbatim>\<open>impersonate.IDTokenSource\<close>
  with its \<^verbatim>\<open>IDTokenConfig\<close> (target principal, audience, include-email flag) and
  \<^verbatim>\<open>idtoken.NewTokenSource\<close> (audience, credentials JSON).
\<close>

datatype IDTokenSource =
    ImpersonateIDTokenSource string string bool
  | CredentialsJSONIDTokenSource string string

type_synonym go_error = string

text \<open>
  The answers of the outside world during one request: what a non-static token source
  returns from \<^verbatim>\<open>Token()\<close>, whether building an identity-token source fails, what that
  source returns from \<^verbatim>\<open>Token()\<close>, and the email \<^verbatim>\<open>google.JWTConfigFromJSON\<close> finds
  in a key file.
\<close>

record provider =
  source_Token :: "TokenSource \<Rightarrow> go_error + Token"
  new_IDTokenSource :: "IDTokenSource \<Rightarrow> go_error option"
  idsource_Token :: "IDTokenSource \<Rightarrow> go_error + Token"
  JWTConfigFromJSON :: "string \<Rightarrow> string \<Rightarrow> go_error + string"

datatype provider_call =
    Call_Token TokenSource
  | Call_NewIDTokenSource IDTokenSource
  | Call_IDToken IDTokenSource

text \<open>
  The ways a call can end without returning: a nil-pointer or index panic (recovered by
  \<^verbatim>\<open>net/http\<close>, which drops the connection) and \<^verbatim>\<open>os.Exit\<close>.
\<close>

datatype failure = NilPointerPanic | IndexPanic | ProcessExit int

text \<open>
  The package-level variables \<^verbatim>\<open>cfg\<close>, \<^verbatim>\<open>customAttributeMap\<close> and \<^verbatim>\<open>creds\<close> (a
  pointer, \<open>None\<close> when nil), the process environment, and the log of calls made to
  external token providers. \<^verbatim>\<open>tokenMutex\<close> has no effect on a single call that runs
  alone and is left out.
\<close>

record globals =
  cfg :: serverConfig
  customAttributeMap :: "string \<rightharpoonup> string"
  creds :: "Credentials option"
  environ :: "string \<rightharpoonup> string"
  provider_calls :: "provider_call list"

subsection \<open>Environment override\<close>

definition Getenv :: "globals \<Rightarrow> string \<Rightarrow> string" where
  "Getenv g k = (case environ g k of None \<Rightarrow> '''' | Some v \<Rightarrow> v)"

definition isEnvironmentOverrideSet :: "globals \<Rightarrow> bool" where
  "isEnvironmentOverrideSet g =
     (if Getenv g googleAccessToken \<noteq> '''' \<and> Getenv g googleIDToken \<noteq> ''''
         \<and> Getenv g googleAccountEmail \<noteq> '''' \<and> Getenv g googleNumericProjectID \<noteq> ''''
         \<and> Getenv g googleProjectID \<noteq> ''''
      then True else False)"

subsection \<open>Durations\<close>

text \<open>
  \<^verbatim>\<open>time.Duration\<close> is an \<^verbatim>\<open>int64\<close> count of nanoseconds. \<open>int64\<close> wraps an integer
  into that range, \<open>uint64\<close> is the conversion \<^verbatim>\<open>lessThanHalf\<close> uses, and \<open>go_quot\<close>,
  \<open>go_rem\<close> are Go's \<^verbatim>\<open>/\<close> and \<^verbatim>\<open>%\<close>, which truncate toward zero.
\<close>

definition minDuration :: int where
  "minDuration = - (2 ^ 63)"

definition maxDuration :: int where
  "maxDuration = 2 ^ 63 - 1"

definition Second :: int where
  "Second = 1000000000"

definition int64 :: "int \<Rightarrow> int" where
  "int64 x = (x + 2 ^ 63) mod 2 ^ 64 - 2 ^ 63"

definition uint64 :: "int \<Rightarrow> int" where
  "uint64 x = x mod 2 ^ 64"

definition go_quot :: "int \<Rightarrow> int \<Rightarrow> int" where
  "go_quot a b = sgn a * sgn b * (\<bar>a\<bar> div \<bar>b\<bar>)"

definition go_rem :: "int \<Rightarrow> int \<Rightarrow> int" where
  "go_rem a b = sgn a * (\<bar>a\<bar> mod \<bar>b\<bar>)"

text \<open>
  \<^verbatim>\<open>t.Sub(u)\<close>: the difference of two instants, and the minimum or maximum duration
  when the difference does not fit.
\<close>

definition Time_Sub :: "int \<Rightarrow> int \<Rightarrow> int" where
  "Time_Sub t u =
     (let d = t - u in
      if d < minDuration then minDuration
      else if maxDuration < d then maxDuration
      else d)"

definition lessThanHalf :: "int \<Rightarrow> int \<Rightarrow> bool" where
  "lessThanHalf x y = (uint64 (uint64 x + uint64 x) < uint64 y)"

text \<open>\<^verbatim>\<open>d.Round(m)\<close>, halves away from zero, with the library's overflow checks.\<close>

definition Duration_Round :: "int \<Rightarrow> int \<Rightarrow> int" where
  "Duration_Round d m =
     (if m \<le> 0 then d
      else
        let r = go_rem d m in
        if d < 0 then
          (let r' = - r in
           if lessThanHalf r' m then int64 (d + r')
           else
             let d1 = int64 (d - m + r') in
             if d1 < d then d1 else minDuration)
        else if lessThanHalf r m then int64 (d - r)
        else
          let d1 = int64 (d + m - r) in
          if d1 > d then d1 else maxDuration)"

text \<open>
  \<^verbatim>\<open>int(d.Seconds())\<close>. \<^verbatim>\<open>Seconds\<close> returns the \<^verbatim>\<open>float64\<close>
  \<^verbatim>\<open>float64(d / Second) + float64(d % Second) / 1e9\<close> and the conversion to \<^verbatim>\<open>int\<close>
  drops the fraction. The program applies it to the result of \<^verbatim>\<open>Round(time.Second)\<close>
  only: a multiple of a second, where the fraction is zero and the whole part, below
  \<open>2 ^ 53\<close>, is exact, or one of the two saturation bounds, where the fraction is
  \<open>0.85\<close>. On these values the result is the truncated quotient.
\<close>

definition Duration_Seconds_int :: "int \<Rightarrow> int" where
  "Duration_Seconds_int d = go_quot d Second"

subsection \<open>Tokens\<close>

text \<open>
  \<^verbatim>\<open>ts.Token()\<close>: a static source returns its token; any other source is asked, and
  the call is logged.
\<close>

definition TokenSource_Token ::
  "provider \<Rightarrow> TokenSource \<Rightarrow> globals \<Rightarrow> (go_error + Token) \<times> globals" where
  "TokenSource_Token P ts g =
     (case ts of
        StaticTokenSource t \<Rightarrow> (Inr t, g)
      | _ \<Rightarrow> (source_Token P ts, g\<lparr>provider_calls := provider_calls g @ [Call_Token ts]\<rparr>))"

definition empty_metadataToken :: metadataToken where
  "empty_metadataToken = \<lparr>AccessToken = '''', ExpiresIn = 0, TokenType = ''''\<rparr>"

text \<open>
  \<^verbatim>\<open>getAccessToken\<close> returns a token and an error (\<open>None\<close> for nil). \<open>now\<close> is what
  \<^verbatim>\<open>time.Now()\<close> reads. With the override set, the function first assigns the global
  \<^verbatim>\<open>creds\<close>.
\<close>

definition getAccessToken ::
  "provider \<Rightarrow> int \<Rightarrow> globals \<Rightarrow> (failure + metadataToken \<times> go_error option) \<times> globals" where
  "getAccessToken P now g =
     (let g1 =
        (if isEnvironmentOverrideSet g then
           g\<lparr>creds := Some \<lparr>ProjectID = Getenv g googleProjectID,
                TokenSource = StaticTokenSource
                  \<lparr>Token_AccessToken = Getenv g googleAccessToken,
                   Token_TokenType = ''Bearer'',
                   Token_Expiry = 0\<rparr>,
                JSON = ''''\<rparr>\<rparr>
         else g)
      in case creds g1 of
           None \<Rightarrow> (Inl NilPointerPanic, g1)
         | Some c \<Rightarrow>
             (case TokenSource_Token P (TokenSource c) g1 of
                (Inl err, g2) \<Rightarrow> (Inr (empty_metadataToken, Some err), g2)
              | (Inr tok, g2) \<Rightarrow>
                  (Inr (\<lparr>AccessToken = Token_AccessToken tok,
                         ExpiresIn = Duration_Seconds_int
                           (Duration_Round (Time_Sub (Token_Expiry tok) now) Second),
                         TokenType = Token_TokenType tok\<rparr>, None), g2)))"

text \<open>
  The tail of \<^verbatim>\<open>getIDToken\<close> once the source to build is known: build it, then ask
  it for a token.
\<close>

definition fetch_IDToken ::
  "provider \<Rightarrow> IDTokenSource \<Rightarrow> globals \<Rightarrow> (failure + string \<times> go_error option) \<times> globals" where
  "fetch_IDToken P src g =
     (let g1 = g\<lparr>provider_calls := provider_calls g @ [Call_NewIDTokenSource src]\<rparr> in
      case new_IDTokenSource P src of
        Some err \<Rightarrow> (Inr ('''', Some ''unable to get id_token''), g1)
      | None \<Rightarrow>
          (let g2 = g1\<lparr>provider_calls := provider_calls g1 @ [Call_IDToken src]\<rparr> in
           case idsource_Token P src of
             Inl err \<Rightarrow> (Inr ('''', Some err), g2)
           | Inr tok \<Rightarrow> (Inr (Token_AccessToken tok, None), g2)))"

definition getIDToken ::
  "provider \<Rightarrow> string \<Rightarrow> globals \<Rightarrow> (failure + string \<times> go_error option) \<times> globals" where
  "getIDToken P targetAudience g =
     (if isEnvironmentOverrideSet g then (Inr (Getenv g googleIDToken, None), g)
      else if flImpersonate (cfg g) then
        fetch_IDToken P
          (ImpersonateIDTokenSource (flserviceAccountEmail (cfg g)) targetAudience True) g
      else
        (case creds g of
           None \<Rightarrow> (Inl NilPointerPanic, g)
         | Some c \<Rightarrow> fetch_IDToken P (CredentialsJSONIDTokenSource targetAudience (JSON c)) g))"

subsection \<open>Identity\<close>

definition getProjectID :: "globals \<Rightarrow> failure + string" where
  "getProjectID g =
     (if isEnvironmentOverrideSet g then Inr (Getenv g googleProjectID)
      else if flprojectID (cfg g) \<noteq> '''' then Inr (flprojectID (cfg g))
      else (case creds g of None \<Rightarrow> Inl NilPointerPanic | Some c \<Rightarrow> Inr (ProjectID c)))"

definition getNumericProjectID :: "globals \<Rightarrow> string" where
  "getNumericProjectID g =
     (if isEnvironmentOverrideSet g then Getenv g googleNumericProjectID
      else flnumericProjectID (cfg g))"

definition getServiceAccountEmail :: "provider \<Rightarrow> globals \<Rightarrow> failure + string" where
  "getServiceAccountEmail P g =
     (if isEnvironmentOverrideSet g then Inr (Getenv g googleAccountEmail)
      else if flserviceAccountEmail (cfg g) \<noteq> '''' then Inr (flserviceAccountEmail (cfg g))
      else
        (case creds g of
           None \<Rightarrow> Inl NilPointerPanic
         | Some c \<Rightarrow>
             (case JWTConfigFromJSON P (JSON c) emailScope of
                Inl err \<Rightarrow> Inl (ProcessExit 1)
              | Inr email \<Rightarrow> Inr email)))"

subsection \<open>Custom attributes\<close>

text \<open>
  What startup asks of the operating system and of the libraries: the files that can be
  opened, with their contents (\<open>None\<close> when \<^verbatim>\<open>os.Open\<close> or \<^verbatim>\<open>ioutil.ReadFile\<close>
  fails), \<^verbatim>\<open>json.Decoder.Decode\<close> into a \<^verbatim>\<open>map[string]string\<close>,
  \<^verbatim>\<open>google.CredentialsFromJSON\<close> and \<^verbatim>\<open>impersonate.CredentialsTokenSource\<close>.
\<close>

record library =
  files :: "string \<rightharpoonup> string"
  json_Decode :: "string \<Rightarrow> go_error + (string \<rightharpoonup> string)"
  CredentialsFromJSON :: "string \<Rightarrow> string list \<Rightarrow> go_error + Credentials"
  impersonate_CredentialsTokenSource :: "string \<Rightarrow> string list \<Rightarrow> go_error option"

text \<open>
  \<^verbatim>\<open>setCustomAttributes\<close> returns early three times and assigns the global once. What
  it writes to the log and to standard output is not modelled.
\<close>

definition setCustomAttributes :: "library \<Rightarrow> string \<Rightarrow> globals \<Rightarrow> globals" where
  "setCustomAttributes L customAttributesFile g =
     (if customAttributesFile = '''' then g
      else
        (case files L customAttributesFile of
           None \<Rightarrow> g
         | Some file \<Rightarrow>
             (case json_Decode L file of
                Inl err \<Rightarrow> g
              | Inr data \<Rightarrow> g\<lparr>customAttributeMap := data\<rparr>)))"

subsection \<open>Startup\<close>

text \<open>\<^verbatim>\<open>strings.Split(s, ",")\<close>, for any separator character.\<close>

fun Split :: "string \<Rightarrow> char \<Rightarrow> string list" where
  "Split [] sep = [[]]"
| "Split (x # xs) sep =
     (if x = sep then [] # Split xs sep
      else (case Split xs sep of [] \<Rightarrow> [[x]] | y # ys \<Rightarrow> (x # y) # ys))"

text \<open>
  The package-level initialisers, for a configuration as \<^verbatim>\<open>flag.Parse\<close> leaves it and
  an environment.
\<close>

definition initial_globals :: "serverConfig \<Rightarrow> (string \<rightharpoonup> string) \<Rightarrow> globals" where
  "initial_globals c e =
     \<lparr>cfg = c,
      customAttributeMap = [''k1'' \<mapsto> ''v1'', ''k2'' \<mapsto> ''v2''],
      creds = None,
      environ = e,
      provider_calls = []\<rparr>"

text \<open>
  The part of \<^verbatim>\<open>main\<close> that chooses the credentials and loads the attributes, up to
  the start of the listener. \<^verbatim>\<open>argError\<close> exits with \<open>-1\<close>.
\<close>

definition main_startup :: "library \<Rightarrow> globals \<Rightarrow> failure + globals" where
  "main_startup L g =
     (let c = cfg g in
      case
        (if isEnvironmentOverrideSet g then Inr g
         else if flImpersonate c then
           (if flnumericProjectID c = '''' \<or> flprojectID c = '''' \<or> flserviceAccountEmail c = ''''
            then Inl (ProcessExit (- 1))
            else
              (let s = Split (fltokenScopes c) CHR '','' in
               case impersonate_CredentialsTokenSource L (flserviceAccountEmail c) s of
                 Some err \<Rightarrow> Inl (ProcessExit 1)
               | None \<Rightarrow>
                   Inr (g\<lparr>creds := Some
                     \<lparr>ProjectID = flprojectID c,
                      TokenSource = ImpersonateCredentialsTokenSource (flserviceAccountEmail c) s,
                      JSON = ''''\<rparr>\<rparr>)))
         else
           (if flserviAccountFile c = '''' then Inl (ProcessExit (- 1))
            else
              (case files L (flserviAccountFile c) of
                 None \<Rightarrow> Inl (ProcessExit 1)
               | Some data \<Rightarrow>
                   (case CredentialsFromJSON L data (Split (fltokenScopes c) CHR '','') of
                      Inl err \<Rightarrow> Inl (ProcessExit 1)
                    | Inr cr \<Rightarrow> Inr (g\<lparr>creds := Some cr\<rparr>)))))
      of
        Inl f \<Rightarrow> Inl f
      | Inr g' \<Rightarrow> Inr (setCustomAttributes L (flcustomAttributeFile c) g'))"

subsection \<open>HTTP handlers\<close>

text \<open>
  A response body is the sequence of what was written to it. The bytes
  \<^verbatim>\<open>json.Marshal\<close> makes of a struct are kept as the struct; for these two structs of
  strings and an \<^verbatim>\<open>int\<close> it returns no error, so the branches of the handlers that
  handle one are never taken and are left out.
\<close>

datatype body_part =
    Text string
  | JSON_metadataToken metadataToken
  | JSON_serviceAccountDetails serviceAccountDetails

text \<open>
  \<^verbatim>\<open>http.ResponseWriter\<close>: the header map of \<^verbatim>\<open>w.Header()\<close>, the status once it is
  written, the headers as they were at that moment (the ones sent), and the body.
  The first write sends status 200 when none was written. The \<^verbatim>\<open>Content-Type\<close> that
  \<^verbatim>\<open>net/http\<close> detects when the handler set none is not modelled.
\<close>

record ResponseWriter =
  w_header :: "string \<rightharpoonup> string"
  w_status :: "nat option"
  w_sent_header :: "string \<rightharpoonup> string"
  w_body :: "body_part list"

definition new_ResponseWriter :: ResponseWriter where
  "new_ResponseWriter =
     \<lparr>w_header = Map.empty, w_status = None, w_sent_header = Map.empty, w_body = []\<rparr>"

definition Header_Set :: "string \<Rightarrow> string \<Rightarrow> ResponseWriter \<Rightarrow> ResponseWriter" where
  "Header_Set k v w = w\<lparr>w_header := (w_header w)(k \<mapsto> v)\<rparr>"

definition WriteHeader :: "nat \<Rightarrow> ResponseWriter \<Rightarrow> ResponseWriter" where
  "WriteHeader code w =
     (case w_status w of
        None \<Rightarrow> w\<lparr>w_status := Some code, w_sent_header := w_header w\<rparr>
      | Some _ \<Rightarrow> w)"

definition Write :: "body_part \<Rightarrow> ResponseWriter \<Rightarrow> ResponseWriter" where
  "Write b w = (let w1 = WriteHeader 200 w in w1\<lparr>w_body := w_body w1 @ [b]\<rparr>)"

definition StatusBadRequest :: nat where
  "StatusBadRequest = 400"

definition StatusNotFound :: nat where
  "StatusNotFound = 404"

definition StatusInternalServerError :: nat where
  "StatusInternalServerError = 500"

definition StatusText :: "nat \<Rightarrow> string" where
  "StatusText code =
     (if code = 400 then ''Bad Request''
      else if code = 404 then ''Not Found''
      else if code = 500 then ''Internal Server Error''
      else '''')"

text \<open>\<^verbatim>\<open>http.Error\<close>: two headers, the status, and the message with a newline.\<close>

definition http_Error :: "ResponseWriter \<Rightarrow> string \<Rightarrow> nat \<Rightarrow> ResponseWriter" where
  "http_Error w msg code =
     Write (Text (msg @ [CHR 0x0A]))
       (WriteHeader code
         (Header_Set ''X-Content-Type-Options'' ''nosniff''
           (Header_Set ''Content-Type'' ''text/plain; charset=utf-8'' w)))"

text \<open>The decimal digits \<^verbatim>\<open>fmt.Fprint\<close> prints for a non-negative integer.\<close>

fun decimal :: "nat \<Rightarrow> string" where
  "decimal n =
     (if n < 10 then [char_of (48 + n)]
      else decimal (n div 10) @ [char_of (48 + n mod 10)])"

declare decimal.simps [simp del]

text \<open>
  A request, as the handlers read it: the route variables of \<^verbatim>\<open>mux.Vars(r)\<close> and the
  parsed query of \<^verbatim>\<open>r.URL.Query()\<close>. Indexing a Go map with a missing key gives the
  zero value.
\<close>

record Request =
  Vars :: "string \<rightharpoonup> string"
  Query :: "string \<rightharpoonup> string list"

definition var :: "Request \<Rightarrow> string \<Rightarrow> string" where
  "var r k = (case Vars r k of None \<Rightarrow> '''' | Some v \<Rightarrow> v)"

definition attributesHandler :: "ResponseWriter \<Rightarrow> Request \<Rightarrow> globals \<Rightarrow> ResponseWriter" where
  "attributesHandler w r g =
     (case customAttributeMap g (var r ''key'') of
        Some val \<Rightarrow> Write (Text val) w
      | None \<Rightarrow> Write (Text (decimal StatusNotFound)) w)"

text \<open>The loop both service-account handlers run over the configured scopes.\<close>

definition render_scopes :: "globals \<Rightarrow> string" where
  "render_scopes g =
     foldl (\<lambda>scopes e. scopes @ e @ [CHR 0x0A]) '''' (Split (fltokenScopes (cfg g)) CHR '','')"

definition getServiceAccountIndexHandler ::
  "provider \<Rightarrow> ResponseWriter \<Rightarrow> Request \<Rightarrow> globals \<Rightarrow> failure + ResponseWriter" where
  "getServiceAccountIndexHandler P w r g =
     (let scopes = render_scopes g in
      case getServiceAccountEmail P g of
        Inl f \<Rightarrow> Inl f
      | Inr email \<Rightarrow>
          Inr (Write (JSON_serviceAccountDetails
                 \<lparr>Aliases = var r ''acct'', Email = email, Scopes = scopes\<rparr>)
               (Header_Set ''Content-Type'' ''application/json'' w)))"

definition getServiceAccountHandler ::
  "provider \<Rightarrow> int \<Rightarrow> ResponseWriter \<Rightarrow> Request \<Rightarrow> globals
     \<Rightarrow> (failure + ResponseWriter) \<times> globals" where
  "getServiceAccountHandler P now w r g =
     (let key = var r ''key'' in
      if key = ''aliases'' then
        (Inr (Write (Text ''default'') (Header_Set ''Content-Type'' ''application/text'' w)), g)
      else if key = ''email'' then
        (case getServiceAccountEmail P g of
           Inl f \<Rightarrow> (Inl f, g)
         | Inr email \<Rightarrow>
             (Inr (Write (Text email) (Header_Set ''Content-Type'' ''application/text'' w)), g))
      else if key = ''identity'' then
        (case Query r ''audience'' of
           None \<Rightarrow>
             (Inr (Write (Text ''non-empty audience parameter required'')
                    (Header_Set ''Content-Type'' ''text/html''
                      (http_Error w (StatusText StatusBadRequest) StatusBadRequest))), g)
         | Some k \<Rightarrow>
             (case k of
                [] \<Rightarrow> (Inl IndexPanic, g)
              | k0 # _ \<Rightarrow>
                  (case getIDToken P k0 g of
                     (Inl f, g') \<Rightarrow> (Inl f, g')
                   | (Inr (idtok, Some err), g') \<Rightarrow>
                       (Inr (Header_Set ''Content-Type'' ''text/html''
                              (http_Error w (StatusText StatusInternalServerError)
                                 StatusInternalServerError)), g')
                   | (Inr (idtok, None), g') \<Rightarrow>
                       (Inr (Write (Text idtok) (Header_Set ''Content-Type'' ''text/html'' w)),
                        g'))))
      else if key = ''scopes'' then
        (Inr (Write (Text (render_scopes g))
               (Header_Set ''Content-Type'' ''application/text'' w)), g)
      else if key = ''token'' then
        (case getAccessToken P now g of
           (Inl f, g') \<Rightarrow> (Inl f, g')
         | (Inr (tok, Some err), g') \<Rightarrow>
             (Inr (Header_Set ''Content-Type'' ''applicaiton/text''
                    (http_Error w (StatusText StatusInternalServerError)
                       StatusInternalServerError)), g')
         | (Inr (tok, None), g') \<Rightarrow>
             (Inr (Write (JSON_metadataToken tok)
                    (Header_Set ''Content-Type'' ''application/json'' w)), g'))
      else
        (Inr (Header_Set ''Content-Type'' ''text/html; charset=UTF-8''
               (http_Error w (StatusText StatusNotFound) StatusNotFound)), g))"

text \<open>
  The request-time operations of the program on its globals, as one type, and the
  globals each of them leaves behind.
\<close>

datatype operation =
    Op_getAccessToken
  | Op_getIDToken string
  | Op_getProjectID
  | Op_getNumericProjectID
  | Op_getServiceAccountEmail

definition globals_after :: "provider \<Rightarrow> int \<Rightarrow> operation \<Rightarrow> globals \<Rightarrow> globals" where
  "globals_after P now op g =
     (case op of
        Op_getAccessToken \<Rightarrow> snd (getAccessToken P now g)
      | Op_getIDToken aud \<Rightarrow> snd (getIDToken P aud g)
      | Op_getProjectID \<Rightarrow> g
      | Op_getNumericProjectID \<Rightarrow> g
      | Op_getServiceAccountEmail \<Rightarrow> g)"

text \<open>
  The credentials \<^verbatim>\<open>getAccessToken\<close> assigns to \<^verbatim>\<open>creds\<close> when the override is
  set, and a run of requests, each with the provider's answers and the clock of its
  moment.
\<close>

definition static_creds :: "globals \<Rightarrow> Credentials" where
  "static_creds g =
     \<lparr>ProjectID = Getenv g googleProjectID,
      TokenSource = StaticTokenSource
        \<lparr>Token_AccessToken = Getenv g googleAccessToken,
         Token_TokenType = ''Bearer'',
         Token_Expiry = 0\<rparr>,
      JSON = ''''\<rparr>"

definition run_requests :: "(provider \<times> int \<times> operation) list \<Rightarrow> globals \<Rightarrow> globals" where
  "run_requests rs g = fold (\<lambda>(P, now, op). globals_after P now op) rs g"

subsection \<open>Concrete inputs\<close>

text \<open>The flags at their defaults, and variations of them.\<close>

definition default_cfg :: serverConfig where
  "default_cfg =
     \<lparr>flPort = '':8080'',
      flnumericProjectID = '''',
      fltokenScopes = ''https://www.googleapis.com/auth/userinfo.email'',
      flprojectID = '''',
      flserviceAccountEmail = '''',
      flserviAccountFile = '''',
      flcustomAttributeFile = '''',
      flImpersonate = False\<rparr>"

definition keyfile_cfg :: serverConfig where
  "keyfile_cfg = default_cfg\<lparr>flserviAccountFile := ''sa.json''\<rparr>"

definition override_env :: "string \<rightharpoonup> string" where
  "override_env =
     [''GOOGLE_ACCESS_TOKEN'' \<mapsto> ''ya29.static'',
      ''GOOGLE_ID_TOKEN'' \<mapsto> ''eyJ.static'',
      ''GOOGLE_ACCOUNT_EMAIL'' \<mapsto> ''sa@env.example'',
      ''GOOGLE_NUMERIC_PROJECT_ID'' \<mapsto> ''1071284184436'',
      ''GOOGLE_PROJECT_ID'' \<mapsto> ''env-project'']"

text \<open>A provider that refuses every call, and one that answers every call.\<close>

definition refusing_provider :: provider where
  "refusing_provider =
     \<lparr>source_Token = (\<lambda>ts. Inl ''unreachable''),
      new_IDTokenSource = (\<lambda>src. Some ''unreachable''),
      idsource_Token = (\<lambda>src. Inl ''unreachable''),
      JWTConfigFromJSON = (\<lambda>json scope. Inl ''unreachable'')\<rparr>"

definition answering_provider :: provider where
  "answering_provider =
     \<lparr>source_Token = (\<lambda>ts.
        Inr \<lparr>Token_AccessToken = ''ya29.fresh'', Token_TokenType = ''Bearer'',
             Token_Expiry = 63929091600000000000\<rparr>),
      new_IDTokenSource = (\<lambda>src. None),
      idsource_Token = (\<lambda>src.
        Inr \<lparr>Token_AccessToken = ''eyJ.fresh'', Token_TokenType = ''Bearer'',
             Token_Expiry = 63929091600000000000\<rparr>),
      JWTConfigFromJSON = (\<lambda>json scope. Inr ''sa@file.example'')\<rparr>"

text \<open>
  An instant in November 2026: 63929088000 seconds after the zero \<^verbatim>\<open>Time\<close>. The
  tokens of \<open>answering_provider\<close> expire one hour later.
\<close>

definition now_2026 :: int where
  "now_2026 = 63929088000000000000"

definition keyfile_creds :: Credentials where
  "keyfile_creds =
     \<lparr>ProjectID = ''file-project'',
      TokenSource = JSONCredentialsTokenSource ''KEY''
        [''https://www.googleapis.com/auth/userinfo.email''],
      JSON = ''KEY''\<rparr>"

text \<open>
  A file system with a key file and an attribute file, a decoder that accepts the
  attribute file's contents only, and a credentials parser that accepts the key file's.
\<close>

definition example_library :: library where
  "example_library =
     \<lparr>files = [''sa.json'' \<mapsto> ''KEY'', ''attrs.json'' \<mapsto> ''ATTRS'', ''list.json'' \<mapsto> ''LIST''],
      json_Decode = (\<lambda>file.
        if file = ''ATTRS'' then Inr [''a'' \<mapsto> ''1'', ''b'' \<mapsto> ''2'']
        else Inl ''json: cannot unmarshal''),
      CredentialsFromJSON = (\<lambda>data scopes.
        if data = ''KEY'' then
          Inr \<lparr>ProjectID = ''file-project'',
               TokenSource = JSONCredentialsTokenSource data scopes,
               JSON = data\<rparr>
        else Inl ''invalid credentials''),
      impersonate_CredentialsTokenSource = (\<lambda>principal scopes. None)\<rparr>"

definition override_globals :: globals where
  "override_globals = initial_globals default_cfg override_env"

definition keyfile_globals :: globals where
  "keyfile_globals = (initial_globals keyfile_cfg Map.empty)\<lparr>creds := Some keyfile_creds\<rparr>"

text \<open>
  Requests for the service-account routes: the identity of \<^verbatim>\<open>default\<close> with the
  query \<^verbatim>\<open>?audience=\<close>, and the index and the aliases of the account listed by its
  email.
\<close>

definition identity_request_empty_audience :: Request where
  "identity_request_empty_audience =
     \<lparr>Vars = [''acct'' \<mapsto> ''default'', ''key'' \<mapsto> ''identity''],
      Query = [''audience'' \<mapsto> ['''']]\<rparr>"

definition index_request_email :: Request where
  "index_request_email = \<lparr>Vars = [''acct'' \<mapsto> ''sa@file.example''], Query = Map.empty\<rparr>"

definition aliases_request_email :: Request where
  "aliases_request_email =
     \<lparr>Vars = [''acct'' \<mapsto> ''sa@file.example'', ''key'' \<mapsto> ''aliases''],
      Query = Map.empty\<rparr>"

section \<open>Properties\<close>

subsection \<open>Evaluation on the concrete inputs\<close>

lemmas env_names = googleProjectID_def googleNumericProjectID_def googleAccessToken_def
  googleIDToken_def googleAccountEmail_def

lemmas example_defs = override_globals_def keyfile_globals_def initial_globals_def
  override_env_def keyfile_cfg_def default_cfg_def keyfile_creds_def

lemmas duration_defs = Duration_Seconds_int_def Duration_Round_def Time_Sub_def Second_def
  minDuration_def maxDuration_def go_quot_def go_rem_def lessThanHalf_def int64_def uint64_def

lemmas writer_defs = Write_def WriteHeader_def Header_Set_def http_Error_def new_ResponseWriter_def

lemma override_globals_set: "isEnvironmentOverrideSet override_globals"
  by (simp add: isEnvironmentOverrideSet_def Getenv_def example_defs env_names)

lemma keyfile_globals_unset: "\<not> isEnvironmentOverrideSet keyfile_globals"
  by (simp add: isEnvironmentOverrideSet_def Getenv_def example_defs)

lemma isEnvironmentOverrideSet_iff:
  "isEnvironmentOverrideSet g \<longleftrightarrow>
     Getenv g googleAccessToken \<noteq> '''' \<and> Getenv g googleIDToken \<noteq> '''' \<and>
     Getenv g googleAccountEmail \<noteq> '''' \<and> Getenv g googleNumericProjectID \<noteq> '''' \<and>
     Getenv g googleProjectID \<noteq> ''''"
  by (simp add: isEnvironmentOverrideSet_def)

lemma isEnvironmentOverrideSet_cong:
  "environ g' = environ g \<Longrightarrow> isEnvironmentOverrideSet g' = isEnvironmentOverrideSet g"
  by (simp add: isEnvironmentOverrideSet_def Getenv_def)

lemma static_creds_cong:
  "environ g' = environ g \<Longrightarrow> static_creds g' = static_creds g"
  by (simp add: static_creds_def Getenv_def)

lemma decimal_404: "decimal StatusNotFound = ''404''"
  by code_simp

text \<open>
  Startup in key-file mode on the example file system ends in \<open>keyfile_globals\<close>, and
  startup with the override set leaves \<^verbatim>\<open>creds\<close> nil.
\<close>

lemma startup_keyfile:
  "main_startup example_library (initial_globals keyfile_cfg Map.empty) = Inr keyfile_globals"
  by (simp add: main_startup_def isEnvironmentOverrideSet_def Getenv_def example_defs
      example_library_def setCustomAttributes_def)

lemma startup_override:
  "main_startup example_library (initial_globals default_cfg override_env) = Inr override_globals"
  using override_globals_set
  by (simp add: main_startup_def setCustomAttributes_def override_globals_def
      initial_globals_def default_cfg_def)

text \<open>
  A startup that does not exit leaves the environment alone, and without the override
  it leaves \<^verbatim>\<open>creds\<close> set: the nil dereferences of the request-time functions do not
  happen after it.
\<close>

lemma setCustomAttributes_frame:
  "cfg (setCustomAttributes L path g) = cfg g \<and>
   creds (setCustomAttributes L path g) = creds g \<and>
   environ (setCustomAttributes L path g) = environ g"
  by (simp add: setCustomAttributes_def split: option.splits sum.splits)

lemma main_startup_creds:
  assumes "main_startup L g = Inr g'" and "\<not> isEnvironmentOverrideSet g"
  shows "creds g' \<noteq> None \<and> environ g' = environ g"
  using assms
  by (auto simp add: main_startup_def Let_def setCustomAttributes_frame
      split: if_splits option.splits sum.splits)

subsection \<open>Durations\<close>

lemma Time_Sub_bounds: "minDuration \<le> Time_Sub t u \<and> Time_Sub t u \<le> maxDuration"
  by (simp add: Time_Sub_def minDuration_def maxDuration_def Let_def)

lemma Time_Sub_half: "(- 500000000 < Time_Sub t u) = (u < t + 500000000)"
  by (auto simp add: Time_Sub_def minDuration_def maxDuration_def Let_def)

lemma int64_id: "- 9223372036854775808 \<le> x \<Longrightarrow> x \<le> 9223372036854775807 \<Longrightarrow> int64 x = x"
  by (simp add: int64_def)

lemma int64_over:
  assumes "9223372036854775807 < x" "x < 18446744073709551616"
  shows "int64 x = x - 18446744073709551616"
proof -
  have "(x + 9223372036854775808) mod 18446744073709551616
          = x + 9223372036854775808 - 18446744073709551616"
    using assms by (simp add: mod_pos_geq)
  then show ?thesis by (simp add: int64_def)
qed

lemma int64_under:
  assumes "x < - 9223372036854775808" "- 18446744073709551616 \<le> x"
  shows "int64 x = x + 18446744073709551616"
proof -
  have "(x + 9223372036854775808 + 18446744073709551616) mod 18446744073709551616
          = (x + 9223372036854775808) mod 18446744073709551616"
    by (rule mod_add_self2)
  moreover have "(x + 9223372036854775808 + 18446744073709551616) mod 18446744073709551616
          = x + 9223372036854775808 + 18446744073709551616"
    using assms by (intro mod_pos_pos_trivial) simp_all
  ultimately show ?thesis by (simp add: int64_def)
qed

lemma lessThanHalf_small:
  assumes "0 \<le> r" "r < 1000000000"
  shows "lessThanHalf r 1000000000 = (2 * r < 1000000000)"
proof -
  have "uint64 r = r" using assms by (simp add: uint64_def)
  moreover have "uint64 (r + r) = r + r" using assms by (simp add: uint64_def)
  moreover have "uint64 1000000000 = 1000000000" by (simp add: uint64_def)
  ultimately show ?thesis by (simp add: lessThanHalf_def)
qed

lemma Round_nonneg:
  assumes "0 \<le> d" "d \<le> maxDuration"
  shows "0 \<le> Duration_Round d Second"
proof -
  define r where "r = d mod 1000000000"
  have r: "0 \<le> r" "r < 1000000000" "r \<le> d"
    using assms by (simp_all add: r_def zmod_le_nonneg_dividend)
  have gr: "go_rem d 1000000000 = r"
    using assms by (cases "d = 0") (simp_all add: go_rem_def r_def)
  have lh: "lessThanHalf r 1000000000 = (2 * r < 1000000000)"
    using r(1,2) by (rule lessThanHalf_small)
  have a: "int64 (d - r) = d - r"
    using r assms by (intro int64_id) (simp_all add: maxDuration_def)
  have b: "0 \<le> (if d < int64 (d + 1000000000 - r) then int64 (d + 1000000000 - r) else maxDuration)"
    using assms by (simp add: maxDuration_def)
  show ?thesis
    using assms r a b by (simp add: Duration_Round_def Second_def gr lh Let_def)
qed

lemma Round_neg:
  assumes "d < 0" "minDuration \<le> d"
  shows "(Duration_Round d Second < 0) = (d \<le> - 500000000)"
    and "Duration_Round d Second < 0 \<Longrightarrow> Duration_Round d Second \<le> - 1000000000"
    and "Duration_Round d Second \<le> 0"
proof -
  define r where "r = (- d) mod 1000000000"
  have r: "0 \<le> r" "r < 1000000000" "r \<le> - d"
    using assms by (simp_all add: r_def zmod_le_nonneg_dividend)
  have gr: "- go_rem d 1000000000 = r"
    using assms by (simp add: go_rem_def r_def)
  have lh: "lessThanHalf r 1000000000 = (2 * r < 1000000000)"
    using r(1,2) by (rule lessThanHalf_small)
  have a: "int64 (d + r) = d + r"
    using r assms by (intro int64_id) (simp_all add: minDuration_def)
  have "(d + r) mod 1000000000 = (d + - d) mod 1000000000"
    unfolding r_def by (rule mod_add_right_eq)
  then have "(1000000000::int) dvd d + r"
    by (simp add: dvd_eq_mod_eq_0)
  then obtain k where k: "d + r = 1000000000 * k" ..
  let ?x = "d - 1000000000 + r"
  have R: "Duration_Round d Second =
      (if 2 * r < 1000000000 then d + r
       else if int64 ?x < d then int64 ?x else minDuration)"
    using assms by (simp add: Duration_Round_def Second_def gr lh a Let_def)
  have c: "int64 ?x < d \<Longrightarrow> int64 ?x = ?x"
  proof (cases "?x < - 9223372036854775808")
    case True
    assume lt: "int64 ?x < d"
    have "int64 ?x = ?x + 18446744073709551616"
      using True r assms by (intro int64_under) (simp_all add: minDuration_def)
    with lt r assms show ?thesis by (simp add: minDuration_def)
  next
    case False
    assume "int64 ?x < d"
    show ?thesis using False r assms by (intro int64_id) simp_all
  qed
  have xm: "?x \<le> - 1000000000" using r by simp
  have small2: "d + r < 0 \<Longrightarrow> d + r \<le> - 1000000000"
  proof -
    assume "d + r < 0"
    with k have "k < 0" by simp
    then have "k \<le> - 1" by simp
    with k show ?thesis by simp
  qed
  have small: "2 * r < 1000000000 \<Longrightarrow> (d + r < 0) = (d \<le> - 500000000)"
    using small2 r by linarith
  have big: "\<not> 2 * r < 1000000000 \<Longrightarrow> d \<le> - 500000000"
    using r by simp
  show "(Duration_Round d Second < 0) = (d \<le> - 500000000)"
    using R c xm small big by (auto simp add: minDuration_def)
  show "Duration_Round d Second < 0 \<Longrightarrow> Duration_Round d Second \<le> - 1000000000"
    using R c xm small2 by (auto simp add: minDuration_def split: if_splits)
  show "Duration_Round d Second \<le> 0"
    using R c xm r by (auto simp add: minDuration_def)
qed

lemma go_quot_sign:
  "(0 \<le> go_quot d 1000000000) = (- 1000000000 < d)"
proof (cases "0 \<le> d")
  case True
  then have "0 \<le> d div 1000000000" by simp
  with True show ?thesis by (cases "d = 0") (simp_all add: go_quot_def)
next
  case False
  then have "(0 < (- d) div 1000000000) = (1000000000 \<le> - d)"
    by (simp add: pos_imp_zdiv_pos_iff)
  with False show ?thesis by (auto simp add: go_quot_def)
qed

lemma ExpiresIn_sign:
  "(0 \<le> Duration_Seconds_int (Duration_Round (Time_Sub e now) Second)) = (now < e + 500000000)"
proof -
  define d where "d = Time_Sub e now"
  have b: "minDuration \<le> d" "d \<le> maxDuration"
    using Time_Sub_bounds [of e now] by (simp_all add: d_def)
  have h: "(- 500000000 < d) = (now < e + 500000000)"
    unfolding d_def by (rule Time_Sub_half)
  have "(- 1000000000 < Duration_Round d Second) = (- 500000000 < d)"
  proof (cases "0 \<le> d")
    case True
    with b Round_nonneg [of d] show ?thesis by simp
  next
    case False
    then have n: "d < 0" by simp
    from Round_neg [OF n b(1)] show ?thesis by linarith
  qed
  with h show ?thesis
    by (simp add: Duration_Seconds_int_def Second_def go_quot_sign d_def)
qed

text \<open>
  \<^verbatim>\<open>Round(time.Second)\<close> returns a whole number of seconds or one of the two
  bounds, the values on which \<open>Duration_Seconds_int\<close> is the conversion the program
  makes.
\<close>

lemma Round_multiple_or_bound:
  assumes "minDuration \<le> d" and "d \<le> maxDuration"
  shows "Duration_Round d Second mod Second = 0 \<or> Duration_Round d Second = minDuration \<or>
         Duration_Round d Second = maxDuration"
proof (cases "0 \<le> d")
  case True
  define r where "r = d mod 1000000000"
  have r: "0 \<le> r" "r < 1000000000" "r \<le> d"
    using True by (simp_all add: r_def zmod_le_nonneg_dividend)
  have gr: "go_rem d 1000000000 = r"
    using True by (cases "d = 0") (simp_all add: go_rem_def r_def)
  have lh: "lessThanHalf r 1000000000 = (2 * r < 1000000000)"
    using r(1,2) by (rule lessThanHalf_small)
  have a: "int64 (d - r) = d - r"
    using r assms by (intro int64_id) (simp_all add: maxDuration_def)
  have m: "(d - r) mod 1000000000 = 0"
    unfolding r_def by (simp add: minus_mod_eq_mult_div)
  let ?x = "d + 1000000000 - r"
  have mx: "?x mod 1000000000 = 0"
  proof -
    have "?x = (d - r) + 1000000000" by simp
    then have "?x mod 1000000000 = (d - r) mod 1000000000"
      by (simp only: mod_add_self2)
    with m show ?thesis by simp
  qed
  have c: "d < int64 ?x \<Longrightarrow> int64 ?x = ?x"
  proof (cases "9223372036854775807 < ?x")
    case True
    assume gt: "d < int64 ?x"
    have "int64 ?x = ?x - 18446744073709551616"
      using True r assms by (intro int64_over) (simp_all add: maxDuration_def)
    with gt r assms show ?thesis by (simp add: maxDuration_def)
  next
    case False
    assume "d < int64 ?x"
    show ?thesis using False r True by (intro int64_id) simp_all
  qed
  have R: "Duration_Round d Second =
      (if 2 * r < 1000000000 then d - r
       else if d < int64 ?x then int64 ?x else maxDuration)"
    using True by (simp add: Duration_Round_def Second_def gr lh a Let_def)
  show ?thesis
    using R c m mx by (auto simp add: Second_def)
next
  case False
  then have n: "d < 0" by simp
  define r where "r = (- d) mod 1000000000"
  have r: "0 \<le> r" "r < 1000000000" "r \<le> - d"
    using n by (simp_all add: r_def zmod_le_nonneg_dividend)
  have gr: "- go_rem d 1000000000 = r"
    using n by (simp add: go_rem_def r_def)
  have lh: "lessThanHalf r 1000000000 = (2 * r < 1000000000)"
    using r(1,2) by (rule lessThanHalf_small)
  have a: "int64 (d + r) = d + r"
    using r assms n by (intro int64_id) (simp_all add: minDuration_def)
  have "(d + r) mod 1000000000 = (d + - d) mod 1000000000"
    unfolding r_def by (rule mod_add_right_eq)
  then have m: "(d + r) mod 1000000000 = 0" by simp
  let ?x = "d - 1000000000 + r"
  have mx: "?x mod 1000000000 = 0"
  proof -
    have "?x + 1000000000 = d + r" by simp
    then have "(?x + 1000000000) mod 1000000000 = (d + r) mod 1000000000" by simp
    then have "?x mod 1000000000 = (d + r) mod 1000000000"
      by (simp only: mod_add_self2)
    with m show ?thesis by simp
  qed
  have c: "int64 ?x < d \<Longrightarrow> int64 ?x = ?x"
  proof (cases "?x < - 9223372036854775808")
    case True
    assume lt: "int64 ?x < d"
    have "int64 ?x = ?x + 18446744073709551616"
      using True r assms by (intro int64_under) (simp_all add: minDuration_def)
    with lt r assms show ?thesis by (simp add: minDuration_def)
  next
    case False
    assume "int64 ?x < d"
    show ?thesis using False r n by (intro int64_id) simp_all
  qed
  have R: "Duration_Round d Second =
      (if 2 * r < 1000000000 then d + r
       else if int64 ?x < d then int64 ?x else minDuration)"
    using n by (simp add: Duration_Round_def Second_def gr lh a Let_def)
  show ?thesis
    using R c m mx by (auto simp add: Second_def)
qed

text \<open>
  With the zero \<^verbatim>\<open>Time\<close> as expiry and a clock \<open>2 ^ 63\<close> nanoseconds or more past
  it, that is from the year 293 on, the difference saturates and the seconds are
  \<open>-9223372036\<close>.
\<close>

lemma override_ExpiresIn_saturated:
  assumes "9223372036854775808 \<le> now"
  shows "Duration_Seconds_int (Duration_Round (Time_Sub 0 now) Second) = - 9223372036"
proof -
  have "Time_Sub 0 now = minDuration"
    using assms by (simp add: Time_Sub_def minDuration_def maxDuration_def Let_def)
  then show ?thesis
    by (simp add: duration_defs Let_def)
qed

subsection \<open>What a request leaves of the globals\<close>

lemma getAccessToken_override:
  assumes "isEnvironmentOverrideSet g"
  shows "getAccessToken P now g =
     (Inr (\<lparr>AccessToken = Getenv g googleAccessToken,
            ExpiresIn = Duration_Seconds_int (Duration_Round (Time_Sub 0 now) Second),
            TokenType = ''Bearer''\<rparr>, None),
      g\<lparr>creds := Some (static_creds g)\<rparr>)"
  using assms by (simp add: getAccessToken_def TokenSource_Token_def static_creds_def)

lemma TokenSource_Token_frame:
  "TokenSource_Token P ts g = (res, g') \<Longrightarrow>
     cfg g' = cfg g \<and> environ g' = environ g \<and> customAttributeMap g' = customAttributeMap g \<and>
     creds g' = creds g"
  by (auto simp add: TokenSource_Token_def split: TokenSource.splits)

lemma getAccessToken_frame_unset:
  assumes "\<not> isEnvironmentOverrideSet g"
  shows "cfg (snd (getAccessToken P now g)) = cfg g \<and>
         environ (snd (getAccessToken P now g)) = environ g \<and>
         customAttributeMap (snd (getAccessToken P now g)) = customAttributeMap g \<and>
         creds (snd (getAccessToken P now g)) = creds g"
proof (cases "creds g")
  case None
  with assms show ?thesis by (simp add: getAccessToken_def)
next
  case (Some c)
  obtain res g' where t: "TokenSource_Token P (TokenSource c) g = (res, g')"
    by (cases "TokenSource_Token P (TokenSource c) g")
  from TokenSource_Token_frame [OF t] assms Some t show ?thesis
    by (cases res) (simp_all add: getAccessToken_def)
qed

lemma fetch_IDToken_frame:
  "cfg (snd (fetch_IDToken P src g)) = cfg g \<and>
   environ (snd (fetch_IDToken P src g)) = environ g \<and>
   customAttributeMap (snd (fetch_IDToken P src g)) = customAttributeMap g \<and>
   creds (snd (fetch_IDToken P src g)) = creds g"
  by (simp add: fetch_IDToken_def Let_def split: option.splits sum.splits)

lemma getIDToken_frame:
  "cfg (snd (getIDToken P aud g)) = cfg g \<and>
   environ (snd (getIDToken P aud g)) = environ g \<and>
   customAttributeMap (snd (getIDToken P aud g)) = customAttributeMap g \<and>
   creds (snd (getIDToken P aud g)) = creds g"
  by (simp add: getIDToken_def fetch_IDToken_frame split: option.splits)

lemma globals_after_frame:
  "cfg (globals_after P now op g) = cfg g \<and>
   environ (globals_after P now op g) = environ g \<and>
   customAttributeMap (globals_after P now op g) = customAttributeMap g"
proof (cases op)
  case Op_getAccessToken
  then show ?thesis
    using getAccessToken_frame_unset [of g P now] getAccessToken_override [of g P now]
    by (cases "isEnvironmentOverrideSet g") (simp_all add: globals_after_def)
next
  case (Op_getIDToken aud)
  then show ?thesis using getIDToken_frame [of P aud g] by (simp add: globals_after_def)
qed (simp_all add: globals_after_def)

lemma globals_after_creds:
  "creds (globals_after P now op g) =
     (if op = Op_getAccessToken \<and> isEnvironmentOverrideSet g then Some (static_creds g)
      else creds g)"
proof (cases op)
  case Op_getAccessToken
  then show ?thesis
    using getAccessToken_frame_unset [of g P now] getAccessToken_override [of g P now]
    by (cases "isEnvironmentOverrideSet g") (simp_all add: globals_after_def)
next
  case (Op_getIDToken aud)
  then show ?thesis using getIDToken_frame [of P aud g] by (simp add: globals_after_def)
qed (simp_all add: globals_after_def)

lemma run_requests_Cons:
  "run_requests ((P, now, op) # rs) g = run_requests rs (globals_after P now op g)"
  by (simp add: run_requests_def)

lemma run_requests_frame:
  "cfg (run_requests rs g) = cfg g \<and> environ (run_requests rs g) = environ g \<and>
   customAttributeMap (run_requests rs g) = customAttributeMap g"
proof (induction rs arbitrary: g)
  case Nil
  show ?case by (simp add: run_requests_def)
next
  case (Cons x rs)
  obtain P now op where x: "x = (P, now, op)" by (cases x)
  show ?case
    using Cons.IH [of "globals_after P now op g"] globals_after_frame [of P now op g]
    by (simp add: x run_requests_Cons)
qed

lemma run_requests_creds:
  "creds (run_requests rs g) =
     (if isEnvironmentOverrideSet g \<and> Op_getAccessToken \<in> (\<lambda>(P, now, op). op) ` set rs
      then Some (static_creds g) else creds g)"
proof (induction rs arbitrary: g)
  case Nil
  show ?case by (simp add: run_requests_def)
next
  case (Cons x rs)
  obtain P now op where x: "x = (P, now, op)" by (cases x)
  let ?g = "globals_after P now op g"
  have e: "environ ?g = environ g" using globals_after_frame [of P now op g] by simp
  have ov: "isEnvironmentOverrideSet ?g = isEnvironmentOverrideSet g"
    using e by (rule isEnvironmentOverrideSet_cong)
  have sc: "static_creds ?g = static_creds g"
    using e by (rule static_creds_cong)
  show ?case
    using Cons.IH [of ?g] globals_after_creds [of P now op g]
    by (auto simp add: x run_requests_Cons ov sc)
qed

subsection \<open>Evaluation of the token functions\<close>

lemma override_ExpiresIn_2026:
  "Duration_Seconds_int (Duration_Round (Time_Sub 0 now_2026) Second) = - 9223372036"
  by (simp add: duration_defs now_2026_def Let_def)

lemma fresh_ExpiresIn_2026:
  "Duration_Seconds_int (Duration_Round (Time_Sub 63929091600000000000 now_2026) Second) = 3600"
  by (simp add: duration_defs now_2026_def Let_def)

lemma getAccessToken_override_2026:
  "getAccessToken refusing_provider now_2026 override_globals =
     (Inr (\<lparr>AccessToken = ''ya29.static'', ExpiresIn = - 9223372036, TokenType = ''Bearer''\<rparr>,
           None),
      override_globals\<lparr>creds := Some (static_creds override_globals)\<rparr>)"
  using override_globals_set
  by (simp add: getAccessToken_override override_ExpiresIn_2026)
    (simp add: Getenv_def example_defs env_names)

lemma getAccessToken_keyfile_2026:
  "getAccessToken answering_provider now_2026 keyfile_globals =
     (Inr (\<lparr>AccessToken = ''ya29.fresh'', ExpiresIn = 3600, TokenType = ''Bearer''\<rparr>, None),
      keyfile_globals\<lparr>provider_calls := [Call_Token (TokenSource keyfile_creds)]\<rparr>)"
  using keyfile_globals_unset
  by (simp add: getAccessToken_def TokenSource_Token_def answering_provider_def
      fresh_ExpiresIn_2026 keyfile_globals_def keyfile_creds_def initial_globals_def)

lemma render_scopes_keyfile:
  "render_scopes keyfile_globals = ''https://www.googleapis.com/auth/userinfo.email'' @ [CHR 0x0A]"
  by (simp add: render_scopes_def keyfile_globals_def initial_globals_def keyfile_cfg_def
      default_cfg_def)

lemma getServiceAccountEmail_keyfile:
  "getServiceAccountEmail answering_provider keyfile_globals = Inr ''sa@file.example''"
  using keyfile_globals_unset
  by (simp add: getServiceAccountEmail_def answering_provider_def keyfile_globals_def
      keyfile_creds_def initial_globals_def keyfile_cfg_def default_cfg_def)

subsection \<open>Token issuance under the environment override\<close>

text \<open>
  Claim C1. When the five override variables are all non-empty, \<^verbatim>\<open>getAccessToken\<close>
  returns without error a token whose access token is the value of
  \<^verbatim>\<open>GOOGLE_ACCESS_TOKEN\<close> and whose type is \<^verbatim>\<open>Bearer\<close>, and \<^verbatim>\<open>getIDToken\<close>
  returns the value of \<^verbatim>\<open>GOOGLE_ID_TOKEN\<close> for every audience. Neither asks a
  provider: the results are the same for every provider, and the log of provider calls
  is as it was.
\<close>

theorem override_tokens_verbatim:
  assumes "Getenv g googleAccessToken \<noteq> ''''" and "Getenv g googleIDToken \<noteq> ''''"
    and "Getenv g googleAccountEmail \<noteq> ''''" and "Getenv g googleNumericProjectID \<noteq> ''''"
    and "Getenv g googleProjectID \<noteq> ''''"
  shows "(\<exists>t g'. getAccessToken P now g = (Inr (t, None), g') \<and>
            AccessToken t = Getenv g googleAccessToken \<and> TokenType t = ''Bearer'' \<and>
            provider_calls g' = provider_calls g) \<and>
         (\<forall>audience. getIDToken P audience g = (Inr (Getenv g googleIDToken, None), g))"
proof -
  from assms have ov: "isEnvironmentOverrideSet g"
    by (simp add: isEnvironmentOverrideSet_iff)
  have "\<forall>audience. getIDToken P audience g = (Inr (Getenv g googleIDToken, None), g)"
    using ov by (simp add: getIDToken_def)
  moreover have "\<exists>t g'. getAccessToken P now g = (Inr (t, None), g') \<and>
            AccessToken t = Getenv g googleAccessToken \<and> TokenType t = ''Bearer'' \<and>
            provider_calls g' = provider_calls g"
    by (simp add: getAccessToken_override [OF ov])
  ultimately show ?thesis by simp
qed

theorem override_tokens_verbatim_witness:
  "Getenv override_globals googleAccessToken = ''ya29.static'' \<and>
   Getenv override_globals googleIDToken = ''eyJ.static'' \<and>
   Getenv override_globals googleAccountEmail = ''sa@env.example'' \<and>
   Getenv override_globals googleNumericProjectID = ''1071284184436'' \<and>
   Getenv override_globals googleProjectID = ''env-project'' \<and>
   AccessToken (fst (projr (fst (getAccessToken refusing_provider now_2026 override_globals))))
     = ''ya29.static'' \<and>
   TokenType (fst (projr (fst (getAccessToken refusing_provider now_2026 override_globals))))
     = ''Bearer'' \<and>
   provider_calls (snd (getAccessToken refusing_provider now_2026 override_globals)) = [] \<and>
   getIDToken refusing_provider ''https://a.example'' override_globals
     = (Inr (''eyJ.static'', None), override_globals) \<and>
   getIDToken refusing_provider ''https://b.example'' override_globals
     = (Inr (''eyJ.static'', None), override_globals)"
proof -
  have e: "Getenv override_globals googleAccessToken = ''ya29.static''"
    "Getenv override_globals googleIDToken = ''eyJ.static''"
    "Getenv override_globals googleAccountEmail = ''sa@env.example''"
    "Getenv override_globals googleNumericProjectID = ''1071284184436''"
    "Getenv override_globals googleProjectID = ''env-project''"
    by (simp_all add: Getenv_def example_defs env_names)
  have c: "provider_calls override_globals = []"
    by (simp add: example_defs)
  from e have h: "Getenv override_globals googleAccessToken \<noteq> ''''"
    "Getenv override_globals googleIDToken \<noteq> ''''"
    "Getenv override_globals googleAccountEmail \<noteq> ''''"
    "Getenv override_globals googleNumericProjectID \<noteq> ''''"
    "Getenv override_globals googleProjectID \<noteq> ''''"
    by simp_all
  from override_tokens_verbatim [OF h, of refusing_provider now_2026] e c
  show ?thesis by auto
qed

subsection \<open>The sign of \<^verbatim>\<open>expires_in\<close>\<close>

text \<open>
  Claim C2, as stated, fails: with the override set the token literal leaves
  \<^verbatim>\<open>Expiry\<close> at the zero \<^verbatim>\<open>Time\<close>, the difference to the present saturates at the
  minimum duration, and a request in November 2026 returns, without error,
  \<^verbatim>\<open>expires_in\<close> \<open>= -9223372036\<close>.
\<close>

theorem override_ExpiresIn_negative:
  "isEnvironmentOverrideSet override_globals \<and>
   fst (getAccessToken refusing_provider now_2026 override_globals) =
     Inr (\<lparr>AccessToken = ''ya29.static'', ExpiresIn = - 9223372036, TokenType = ''Bearer''\<rparr>,
          None) \<and>
   \<not> 0 \<le> ExpiresIn (fst (projr (fst
       (getAccessToken refusing_provider now_2026 override_globals))))"
  using override_globals_set by (simp add: getAccessToken_override_2026)

text \<open>
  Claim C2, amended. For every call of \<^verbatim>\<open>getAccessToken\<close> that returns without
  error, \<^verbatim>\<open>ExpiresIn\<close> is at least 0 exactly when the expiry of the token the source
  handed out lies less than half a second before the present. With the override set
  that expiry is the zero \<^verbatim>\<open>Time\<close>, so \<^verbatim>\<open>ExpiresIn\<close> is at least 0 only while the
  clock reads less than half a second after the zero \<^verbatim>\<open>Time\<close>; in the other modes
  the expiry is the one of the token the provider returned.
\<close>

theorem getAccessToken_ExpiresIn_sign:
  assumes "getAccessToken P now g = (Inr (t, None), g')"
  shows "(isEnvironmentOverrideSet g \<longrightarrow> (0 \<le> ExpiresIn t) = (now < 500000000)) \<and>
         (\<not> isEnvironmentOverrideSet g \<longrightarrow>
            (\<exists>c tok. creds g = Some c \<and>
               fst (TokenSource_Token P (TokenSource c) g) = Inr tok \<and>
               (0 \<le> ExpiresIn t) = (now < Token_Expiry tok + 500000000)))"
proof (cases "isEnvironmentOverrideSet g")
  case True
  with assms have "ExpiresIn t = Duration_Seconds_int (Duration_Round (Time_Sub 0 now) Second)"
    by (auto simp add: getAccessToken_override)
  with True show ?thesis by (simp add: ExpiresIn_sign)
next
  case False
  from assms False obtain c where c: "creds g = Some c"
    by (cases "creds g") (simp_all add: getAccessToken_def)
  obtain res g2 where r: "TokenSource_Token P (TokenSource c) g = (res, g2)"
    by (cases "TokenSource_Token P (TokenSource c) g")
  from assms False c r obtain tok where tok: "res = Inr tok"
    by (cases res) (simp_all add: getAccessToken_def)
  from assms False c r tok
  have "ExpiresIn t = Duration_Seconds_int
          (Duration_Round (Time_Sub (Token_Expiry tok) now) Second)"
    by (auto simp add: getAccessToken_def)
  then have "(0 \<le> ExpiresIn t) = (now < Token_Expiry tok + 500000000)"
    by (simp add: ExpiresIn_sign)
  with False c r tok show ?thesis by simp
qed

theorem getAccessToken_ExpiresIn_sign_witness:
  "getAccessToken refusing_provider now_2026 override_globals =
     (Inr (\<lparr>AccessToken = ''ya29.static'', ExpiresIn = - 9223372036, TokenType = ''Bearer''\<rparr>,
           None),
      override_globals\<lparr>creds := Some (static_creds override_globals)\<rparr>) \<and>
   isEnvironmentOverrideSet override_globals \<and>
   \<not> now_2026 < 500000000 \<and>
   getAccessToken answering_provider now_2026 keyfile_globals =
     (Inr (\<lparr>AccessToken = ''ya29.fresh'', ExpiresIn = 3600, TokenType = ''Bearer''\<rparr>, None),
      keyfile_globals\<lparr>provider_calls := [Call_Token (TokenSource keyfile_creds)]\<rparr>) \<and>
   \<not> isEnvironmentOverrideSet keyfile_globals \<and>
   now_2026 < 63929091600000000000 + 500000000"
  using getAccessToken_ExpiresIn_sign [OF getAccessToken_override_2026]
    getAccessToken_ExpiresIn_sign [OF getAccessToken_keyfile_2026]
    getAccessToken_override_2026 getAccessToken_keyfile_2026
    override_globals_set keyfile_globals_unset
  by (simp add: now_2026_def)

subsection \<open>The credentials across requests\<close>

text \<open>
  Claim C3, as stated, fails: startup with the override set leaves \<^verbatim>\<open>creds\<close> nil
  (\<^verbatim>\<open>main\<close> says it will be read on request), and the first access-token request
  assigns it.
\<close>

theorem access_token_request_assigns_creds:
  "main_startup example_library (initial_globals default_cfg override_env) = Inr override_globals \<and>
   creds override_globals = None \<and>
   creds (globals_after refusing_provider now_2026 Op_getAccessToken override_globals) \<noteq>
     creds override_globals"
proof -
  have "creds override_globals = None"
    by (simp add: example_defs)
  moreover have "creds (globals_after refusing_provider now_2026 Op_getAccessToken
      override_globals) = Some (static_creds override_globals)"
    using override_globals_set by (simp add: globals_after_creds)
  ultimately show ?thesis using startup_override by simp
qed

text \<open>
  Claim C3, amended. No run of request-time operations changes the configuration, the
  environment or the attribute map, so the test for the override, which every operation
  evaluates again, and the impersonation flag give what they gave at startup. Without
  the override \<^verbatim>\<open>creds\<close> stays as startup left it. With the override, \<^verbatim>\<open>creds\<close> stays
  as it was until the first \<^verbatim>\<open>getAccessToken\<close>, which assigns the static credentials
  built from the environment, and every later one assigns the same again.
\<close>

theorem requests_keep_selection:
  "cfg (run_requests rs g) = cfg g \<and>
   environ (run_requests rs g) = environ g \<and>
   customAttributeMap (run_requests rs g) = customAttributeMap g \<and>
   isEnvironmentOverrideSet (run_requests rs g) = isEnvironmentOverrideSet g \<and>
   (\<not> isEnvironmentOverrideSet g \<longrightarrow> creds (run_requests rs g) = creds g) \<and>
   (isEnvironmentOverrideSet g \<longrightarrow>
      creds (run_requests rs g) =
        (if Op_getAccessToken \<in> (\<lambda>(P, now, op). op) ` set rs then Some (static_creds g)
         else creds g))"
  using run_requests_frame [of rs g] run_requests_creds [of rs g]
    isEnvironmentOverrideSet_cong [of "run_requests rs g" g]
  by simp

theorem requests_keep_selection_witness:
  "isEnvironmentOverrideSet override_globals \<and>
   creds (run_requests
      [(refusing_provider, now_2026, Op_getIDToken ''https://a.example''),
       (refusing_provider, now_2026, Op_getProjectID)] override_globals) = None \<and>
   creds (run_requests
      [(refusing_provider, now_2026, Op_getIDToken ''https://a.example''),
       (refusing_provider, now_2026, Op_getAccessToken)] override_globals)
     = Some (static_creds override_globals) \<and>
   \<not> isEnvironmentOverrideSet keyfile_globals \<and>
   creds (run_requests
      [(answering_provider, now_2026, Op_getAccessToken),
       (answering_provider, now_2026, Op_getIDToken ''https://a.example'')] keyfile_globals)
     = Some keyfile_creds"
  using requests_keep_selection
      [of "[(refusing_provider, now_2026, Op_getIDToken ''https://a.example''),
            (refusing_provider, now_2026, Op_getProjectID)]" override_globals]
    requests_keep_selection
      [of "[(refusing_provider, now_2026, Op_getIDToken ''https://a.example''),
            (refusing_provider, now_2026, Op_getAccessToken)]" override_globals]
    requests_keep_selection
      [of "[(answering_provider, now_2026, Op_getAccessToken),
            (answering_provider, now_2026, Op_getIDToken ''https://a.example'')]"
          keyfile_globals]
    override_globals_set keyfile_globals_unset
  by (simp add: example_defs)

subsection \<open>Project identity\<close>

text \<open>
  Claim C4. \<^verbatim>\<open>getProjectID\<close> returns the value of \<^verbatim>\<open>GOOGLE_PROJECT_ID\<close> when the
  override is set; otherwise the configured \<^verbatim>\<open>projectId\<close> when it is not empty;
  otherwise the project ID of the resolved credentials. The values of the lower levels
  play no part.
\<close>

theorem getProjectID_precedence:
  "(isEnvironmentOverrideSet g \<longrightarrow> getProjectID g = Inr (Getenv g googleProjectID)) \<and>
   (\<not> isEnvironmentOverrideSet g \<and> flprojectID (cfg g) \<noteq> '''' \<longrightarrow>
      getProjectID g = Inr (flprojectID (cfg g))) \<and>
   (\<not> isEnvironmentOverrideSet g \<and> flprojectID (cfg g) = '''' \<and> creds g = Some c \<longrightarrow>
      getProjectID g = Inr (ProjectID c))"
  by (simp add: getProjectID_def)

theorem getProjectID_precedence_witness:
  "isEnvironmentOverrideSet (override_globals\<lparr>cfg := default_cfg\<lparr>flprojectID := ''flag-project''\<rparr>,
       creds := Some keyfile_creds\<rparr>) \<and>
   getProjectID (override_globals\<lparr>cfg := default_cfg\<lparr>flprojectID := ''flag-project''\<rparr>,
       creds := Some keyfile_creds\<rparr>) = Inr ''env-project'' \<and>
   \<not> isEnvironmentOverrideSet
       (keyfile_globals\<lparr>cfg := keyfile_cfg\<lparr>flprojectID := ''flag-project''\<rparr>\<rparr>) \<and>
   getProjectID (keyfile_globals\<lparr>cfg := keyfile_cfg\<lparr>flprojectID := ''flag-project''\<rparr>\<rparr>)
     = Inr ''flag-project'' \<and>
   \<not> isEnvironmentOverrideSet keyfile_globals \<and>
   flprojectID (cfg keyfile_globals) = '''' \<and>
   creds keyfile_globals = Some keyfile_creds \<and>
   getProjectID keyfile_globals = Inr ''file-project''"
  using getProjectID_precedence
      [of "override_globals\<lparr>cfg := default_cfg\<lparr>flprojectID := ''flag-project''\<rparr>,
             creds := Some keyfile_creds\<rparr>" keyfile_creds]
    getProjectID_precedence
      [of "keyfile_globals\<lparr>cfg := keyfile_cfg\<lparr>flprojectID := ''flag-project''\<rparr>\<rparr>" keyfile_creds]
    getProjectID_precedence [of keyfile_globals keyfile_creds]
  by (simp add: isEnvironmentOverrideSet_def Getenv_def example_defs env_names)

text \<open>
  Claim C5. \<^verbatim>\<open>getNumericProjectID\<close> returns the value of
  \<^verbatim>\<open>GOOGLE_NUMERIC_PROJECT_ID\<close> when the override is set and the configured numeric
  project ID otherwise, whatever \<^verbatim>\<open>creds\<close> holds, also when the configured value is
  empty.
\<close>

theorem getNumericProjectID_no_fallback:
  "(isEnvironmentOverrideSet g \<longrightarrow> getNumericProjectID g = Getenv g googleNumericProjectID) \<and>
   (\<not> isEnvironmentOverrideSet g \<longrightarrow>
      (\<forall>c. getNumericProjectID (g\<lparr>creds := c\<rparr>) = flnumericProjectID (cfg g)))"
  by (simp add: getNumericProjectID_def isEnvironmentOverrideSet_def Getenv_def)

theorem getNumericProjectID_no_fallback_witness:
  "isEnvironmentOverrideSet override_globals \<and>
   getNumericProjectID override_globals = ''1071284184436'' \<and>
   \<not> isEnvironmentOverrideSet keyfile_globals \<and>
   flnumericProjectID (cfg keyfile_globals) = '''' \<and>
   ProjectID keyfile_creds = ''file-project'' \<and>
   getNumericProjectID (keyfile_globals\<lparr>creds := Some keyfile_creds\<rparr>) = ''''"
  using getNumericProjectID_no_fallback [of override_globals]
    getNumericProjectID_no_fallback [of keyfile_globals]
    override_globals_set keyfile_globals_unset
  by (simp add: Getenv_def example_defs env_names)

subsection \<open>Custom attributes\<close>



text \<open>
  Claim C7. On a response not yet started, \<^verbatim>\<open>attributesHandler\<close> answers a key that
  is in the map with status 200 and the mapped value as the body, and a key that is not
  with status 200 and the body \<^verbatim>\<open>404\<close>, the decimal digits of
  \<^verbatim>\<open>http.StatusNotFound\<close>.
\<close>

theorem attributesHandler_lookup:
  assumes "w_status w = None" and "w_body w = []"
  shows "(customAttributeMap g (var r ''key'') = Some v \<longrightarrow>
            w_status (attributesHandler w r g) = Some 200 \<and>
            w_body (attributesHandler w r g) = [Text v]) \<and>
         (customAttributeMap g (var r ''key'') = None \<longrightarrow>
            w_status (attributesHandler w r g) = Some 200 \<and>
            w_body (attributesHandler w r g) = [Text ''404''])"
  using assms
  by (simp add: attributesHandler_def Write_def WriteHeader_def decimal_404 Let_def)

theorem attributesHandler_lookup_witness:
  "w_status new_ResponseWriter = None \<and> w_body new_ResponseWriter = [] \<and>
   customAttributeMap override_globals ''k1'' = Some ''v1'' \<and>
   w_status (attributesHandler new_ResponseWriter
      \<lparr>Vars = [''key'' \<mapsto> ''k1''], Query = Map.empty\<rparr> override_globals) = Some 200 \<and>
   w_body (attributesHandler new_ResponseWriter
      \<lparr>Vars = [''key'' \<mapsto> ''k1''], Query = Map.empty\<rparr> override_globals) = [Text ''v1''] \<and>
   customAttributeMap override_globals ''unknown'' = None \<and>
   w_status (attributesHandler new_ResponseWriter
      \<lparr>Vars = [''key'' \<mapsto> ''unknown''], Query = Map.empty\<rparr> override_globals) = Some 200 \<and>
   w_body (attributesHandler new_ResponseWriter
      \<lparr>Vars = [''key'' \<mapsto> ''unknown''], Query = Map.empty\<rparr> override_globals)
     = [Text ''404'']"
  using attributesHandler_lookup [of new_ResponseWriter override_globals
      "\<lparr>Vars = [''key'' \<mapsto> ''k1''], Query = Map.empty\<rparr>" "''v1''"]
    attributesHandler_lookup [of new_ResponseWriter override_globals
      "\<lparr>Vars = [''key'' \<mapsto> ''unknown''], Query = Map.empty\<rparr>" "''v1''"]
  by (simp add: new_ResponseWriter_def var_def example_defs)

subsection \<open>Service-account routes\<close>

text \<open>
  What the identity branch does with the query: without the key \<^verbatim>\<open>audience\<close> it
  answers 400 with \<^verbatim>\<open>Bad Request\<close> and the explanation, whatever the provider, and
  leaves the globals as they were; with the key present it hands the first value to
  \<^verbatim>\<open>getIDToken\<close> as it is.
\<close>

lemma identity_without_audience:
  assumes "var r ''key'' = ''identity''" and "Query r ''audience'' = None"
  shows "getServiceAccountHandler P now new_ResponseWriter r g =
     (Inr \<lparr>w_header = [''Content-Type'' \<mapsto> ''text/html'',
                        ''X-Content-Type-Options'' \<mapsto> ''nosniff''],
           w_status = Some 400,
           w_sent_header = [''Content-Type'' \<mapsto> ''text/plain; charset=utf-8'',
                             ''X-Content-Type-Options'' \<mapsto> ''nosniff''],
           w_body = [Text (''Bad Request'' @ [CHR 0x0A]),
                     Text ''non-empty audience parameter required'']\<rparr>, g)"
  using assms
  by (simp add: getServiceAccountHandler_def writer_defs StatusText_def StatusBadRequest_def
      Let_def fun_upd_twist)

lemma identity_with_audience:
  assumes "var r ''key'' = ''identity''" and "Query r ''audience'' = Some (a # as)"
  shows "snd (getServiceAccountHandler P now w r g) = snd (getIDToken P a g)"
  using assms
  by (simp add: getServiceAccountHandler_def Let_def split: prod.splits sum.splits option.splits)

lemma identity_with_audience_status:
  assumes "var r ''key'' = ''identity''" and "Query r ''audience'' = Some (a # as)"
    and "getServiceAccountHandler P now new_ResponseWriter r g = (Inr w', g')"
  shows "w_status w' = Some 200 \<or> w_status w' = Some 500"
  using assms
  by (auto simp add: getServiceAccountHandler_def writer_defs StatusInternalServerError_def
      Let_def split: prod.splits sum.splits option.splits)

text \<open>
  Claim C8 asks for 400 whenever the request carries no non-empty audience. The handler
  tests only whether the key is present: for the query \<^verbatim>\<open>?audience=\<close> in key-file
  mode it builds an identity-token source for the empty audience, fetches a token and
  answers 200 with it.
\<close>

theorem identity_empty_audience_accepted:
  "Query identity_request_empty_audience ''audience'' = Some [''''] \<and>
   getServiceAccountHandler answering_provider now_2026 new_ResponseWriter
       identity_request_empty_audience keyfile_globals =
     (Inr \<lparr>w_header = [''Content-Type'' \<mapsto> ''text/html''],
           w_status = Some 200,
           w_sent_header = [''Content-Type'' \<mapsto> ''text/html''],
           w_body = [Text ''eyJ.fresh'']\<rparr>,
      keyfile_globals\<lparr>provider_calls :=
        [Call_NewIDTokenSource (CredentialsJSONIDTokenSource '''' ''KEY''),
         Call_IDToken (CredentialsJSONIDTokenSource '''' ''KEY'')]\<rparr>)"
  using keyfile_globals_unset
  by (simp add: getServiceAccountHandler_def identity_request_empty_audience_def var_def
      getIDToken_def fetch_IDToken_def answering_provider_def writer_defs Let_def
      keyfile_globals_def keyfile_creds_def initial_globals_def keyfile_cfg_def default_cfg_def)

text \<open>
  Claim C9 asks for the alias \<^verbatim>\<open>default\<close> in every rendering. For the account
  addressed by its email the \<^verbatim>\<open>aliases\<close> sub-key answers \<^verbatim>\<open>default\<close>, and the
  index of the same account carries the path segment as its \<^verbatim>\<open>aliases\<close> field.
\<close>

theorem index_aliases_echo_account:
  "getServiceAccountIndexHandler answering_provider new_ResponseWriter index_request_email
       keyfile_globals =
     Inr \<lparr>w_header = [''Content-Type'' \<mapsto> ''application/json''],
          w_status = Some 200,
          w_sent_header = [''Content-Type'' \<mapsto> ''application/json''],
          w_body = [JSON_serviceAccountDetails
            \<lparr>Aliases = ''sa@file.example'', Email = ''sa@file.example'',
             Scopes = ''https://www.googleapis.com/auth/userinfo.email'' @ [CHR 0x0A]\<rparr>]\<rparr> \<and>
   fst (getServiceAccountHandler answering_provider now_2026 new_ResponseWriter
       aliases_request_email keyfile_globals) =
     Inr \<lparr>w_header = [''Content-Type'' \<mapsto> ''application/text''],
          w_status = Some 200,
          w_sent_header = [''Content-Type'' \<mapsto> ''application/text''],
          w_body = [Text ''default'']\<rparr>"
  by (simp add: getServiceAccountIndexHandler_def getServiceAccountHandler_def
      getServiceAccountEmail_keyfile render_scopes_keyfile index_request_email_def
      aliases_request_email_def var_def writer_defs Let_def)

end
